theory Spec2Isabelle
  imports Main "HOL-Library.Sublist"
begin

section \<open>The generated implementors scripts\<close>

text \<open>
  The repository slice holds two scripts generated by a documentation tool:
  \<^verbatim>\<open>api/implementors/wasmtime/component/func/typed/trait.Lower.js\<close> and a second file of
  the same kind whose name is not known (\<^verbatim>\<open>part_000\<close>). Each is one immediately invoked
  function:
  \<^verbatim>\<open>
  (function() {var implementors = { ... };
   if (window.register_implementors) {window.register_implementors(implementors);}
   else {window.pending_implementors = implementors;}})()
  \<close>
  The text after the closing \<^verbatim>\<open>()\<close> of \<^verbatim>\<open>part_000\<close> is a separator, not JavaScript; the
  script ends at \<^verbatim>\<open>()\<close>.
\<close>

subsection \<open>JavaScript values\<close>

text \<open>
  The values a property of \<^verbatim>\<open>window\<close> can hold, as far as the scripts can tell them apart:
  the primitives, arrays, plain objects (key order kept) and functions. A function is named
  by a number; what it does when called belongs to the page that installed it, not to the
  scripts. Numbers are integers or \<^verbatim>\<open>NaN\<close>: the scripts only test a number for being zero.
  Symbols and BigInts are left out.
\<close>

datatype jsval =
    Undefined
  | Null
  | Bool bool
  | Num int
  | NaN
  | Str string
  | Arr "jsval list"
  | Obj "(string \<times> jsval) list"
  | Fun nat

text \<open>ToBoolean: what \<^verbatim>\<open>if (v)\<close> tests.\<close>

fun truthy :: "jsval \<Rightarrow> bool" where
  "truthy Undefined = False"
| "truthy Null = False"
| "truthy (Bool b) = b"
| "truthy (Num n) = (n \<noteq> 0)"
| "truthy NaN = False"
| "truthy (Str s) = (s \<noteq> [])"
| "truthy (Arr xs) = True"
| "truthy (Obj kvs) = True"
| "truthy (Fun n) = True"

subsection \<open>The literal tables\<close>

text \<open>The object literal of \<^verbatim>\<open>trait.Lower.js\<close> (lines 1 to 7), key by key.\<close>

definition trait_Lower_implementors :: jsval where
  "trait_Lower_implementors = Obj [
    (''component_test_util'', Arr [
      Arr [Str ''impl Lower for <a class=\"struct\" href=\"component_test_util/struct.Float32.html\" title=\"struct component_test_util::Float32\">Float32</a>''],
      Arr [Str ''impl Lower for <a class=\"struct\" href=\"component_test_util/struct.Float64.html\" title=\"struct component_test_util::Float64\">Float64</a>'']]),
    (''wasmtime'', Arr []),
    (''wasmtime_wasi'', Arr [
      Arr [Str ''impl Lower for <a class=\"enum\" href=\"wasmtime_wasi/preview2/wasi/command/wasi/sockets/tcp/enum.ShutdownType.html\" title=\"enum wasmtime_wasi::preview2::wasi::command::wasi::sockets::tcp::ShutdownType\">ShutdownType</a>''],
      Arr [Str ''impl Lower for <a class=\"struct\" href=\"wasmtime_wasi/preview2/wasi/command/wasi/sockets/udp/struct.Datagram.html\" title=\"struct wasmtime_wasi::preview2::wasi::command::wasi::sockets::udp::Datagram\">Datagram</a>''],
      Arr [Str ''impl Lower for <a class=\"enum\" href=\"wasmtime_wasi/preview2/wasi/wasi/filesystem/filesystem/enum.Advice.html\" title=\"enum wasmtime_wasi::preview2::wasi::wasi::filesystem::filesystem::Advice\">Advice</a>''],
      Arr [Str ''impl Lower for <a class=\"struct\" href=\"wasmtime_wasi/preview2/wasi/command/wasi/sockets/network/struct.Ipv6SocketAddress.html\" title=\"struct wasmtime_wasi::preview2::wasi::command::wasi::sockets::network::Ipv6SocketAddress\">Ipv6SocketAddress</a>''],
      Arr [Str ''impl Lower for <a class=\"struct\" href=\"wasmtime_wasi/preview2/wasi/command/wasi/sockets/network/struct.Ipv4SocketAddress.html\" title=\"struct wasmtime_wasi::preview2::wasi::command::wasi::sockets::network::Ipv4SocketAddress\">Ipv4SocketAddress</a>''],
      Arr [Str ''impl Lower for <a class=\"enum\" href=\"wasmtime_wasi/preview2/wasi/command/wasi/sockets/network/enum.IpSocketAddress.html\" title=\"enum wasmtime_wasi::preview2::wasi::command::wasi::sockets::network::IpSocketAddress\">IpSocketAddress</a>''],
      Arr [Str ''impl Lower for <a class=\"enum\" href=\"wasmtime_wasi/preview2/wasi/wasi/filesystem/filesystem/enum.NewTimestamp.html\" title=\"enum wasmtime_wasi::preview2::wasi::wasi::filesystem::filesystem::NewTimestamp\">NewTimestamp</a>''],
      Arr [Str ''impl Lower for <a class=\"struct\" href=\"wasmtime_wasi/preview2/wasi/command/wasi/clocks/wall_clock/struct.Datetime.html\" title=\"struct wasmtime_wasi::preview2::wasi::command::wasi::clocks::wall_clock::Datetime\">Datetime</a>''],
      Arr [Str ''impl Lower for <a class=\"enum\" href=\"wasmtime_wasi/preview2/wasi/command/wasi/sockets/network/enum.IpAddressFamily.html\" title=\"enum wasmtime_wasi::preview2::wasi::command::wasi::sockets::network::IpAddressFamily\">IpAddressFamily</a>''],
      Arr [Str ''impl Lower for <a class=\"struct\" href=\"wasmtime_wasi/preview2/wasi/wasi/filesystem/filesystem/struct.DescriptorStat.html\" title=\"struct wasmtime_wasi::preview2::wasi::wasi::filesystem::filesystem::DescriptorStat\">DescriptorStat</a>''],
      Arr [Str ''impl Lower for <a class=\"struct\" href=\"wasmtime_wasi/preview2/wasi/wasi/filesystem/filesystem/struct.Modes.html\" title=\"struct wasmtime_wasi::preview2::wasi::wasi::filesystem::filesystem::Modes\">Modes</a>''],
      Arr [Str ''impl Lower for <a class=\"enum\" href=\"wasmtime_wasi/preview2/wasi/wasi/filesystem/filesystem/enum.ErrorCode.html\" title=\"enum wasmtime_wasi::preview2::wasi::wasi::filesystem::filesystem::ErrorCode\">ErrorCode</a>''],
      Arr [Str ''impl Lower for <a class=\"struct\" href=\"wasmtime_wasi/preview2/wasi/wasi/filesystem/filesystem/struct.DescriptorFlags.html\" title=\"struct wasmtime_wasi::preview2::wasi::wasi::filesystem::filesystem::DescriptorFlags\">DescriptorFlags</a>''],
      Arr [Str ''impl Lower for <a class=\"struct\" href=\"wasmtime_wasi/preview2/wasi/wasi/filesystem/filesystem/struct.OpenFlags.html\" title=\"struct wasmtime_wasi::preview2::wasi::wasi::filesystem::filesystem::OpenFlags\">OpenFlags</a>''],
      Arr [Str ''impl Lower for <a class=\"enum\" href=\"wasmtime_wasi/preview2/wasi/command/wasi/sockets/network/enum.IpAddress.html\" title=\"enum wasmtime_wasi::preview2::wasi::command::wasi::sockets::network::IpAddress\">IpAddress</a>''],
      Arr [Str ''impl Lower for <a class=\"struct\" href=\"wasmtime_wasi/preview2/wasi/wasi/filesystem/filesystem/struct.DirectoryEntry.html\" title=\"struct wasmtime_wasi::preview2::wasi::wasi::filesystem::filesystem::DirectoryEntry\">DirectoryEntry</a>''],
      Arr [Str ''impl Lower for <a class=\"struct\" href=\"wasmtime_wasi/preview2/wasi/wasi/clocks/wall_clock/struct.Datetime.html\" title=\"struct wasmtime_wasi::preview2::wasi::wasi::clocks::wall_clock::Datetime\">Datetime</a>''],
      Arr [Str ''impl Lower for <a class=\"struct\" href=\"wasmtime_wasi/preview2/wasi/wasi/clocks/timezone/struct.TimezoneDisplay.html\" title=\"struct wasmtime_wasi::preview2::wasi::wasi::clocks::timezone::TimezoneDisplay\">TimezoneDisplay</a>''],
      Arr [Str ''impl Lower for <a class=\"enum\" href=\"wasmtime_wasi/preview2/wasi/wasi/filesystem/filesystem/enum.AccessType.html\" title=\"enum wasmtime_wasi::preview2::wasi::wasi::filesystem::filesystem::AccessType\">AccessType</a>''],
      Arr [Str ''impl Lower for <a class=\"struct\" href=\"wasmtime_wasi/preview2/wasi/wasi/io/streams/struct.StreamError.html\" title=\"struct wasmtime_wasi::preview2::wasi::wasi::io::streams::StreamError\">StreamError</a>''],
      Arr [Str ''impl Lower for <a class=\"enum\" href=\"wasmtime_wasi/preview2/wasi/command/wasi/sockets/network/enum.ErrorCode.html\" title=\"enum wasmtime_wasi::preview2::wasi::command::wasi::sockets::network::ErrorCode\">ErrorCode</a>''],
      Arr [Str ''impl Lower for <a class=\"struct\" href=\"wasmtime_wasi/preview2/wasi/wasi/filesystem/filesystem/struct.PathFlags.html\" title=\"struct wasmtime_wasi::preview2::wasi::wasi::filesystem::filesystem::PathFlags\">PathFlags</a>''],
      Arr [Str ''impl Lower for <a class=\"enum\" href=\"wasmtime_wasi/preview2/wasi/wasi/filesystem/filesystem/enum.DescriptorType.html\" title=\"enum wasmtime_wasi::preview2::wasi::wasi::filesystem::filesystem::DescriptorType\">DescriptorType</a>'']]),
    (''wasmtime_wasi_http'', Arr [
      Arr [Str ''impl Lower for <a class=\"struct\" href=\"wasmtime_wasi_http/wasi/io/streams/struct.StreamError.html\" title=\"struct wasmtime_wasi_http::wasi::io::streams::StreamError\">StreamError</a>''],
      Arr [Str ''impl Lower for <a class=\"struct\" href=\"wasmtime_wasi_http/wasi/http/types/struct.RequestOptions.html\" title=\"struct wasmtime_wasi_http::wasi::http::types::RequestOptions\">RequestOptions</a>''],
      Arr [Str ''impl Lower for <a class=\"enum\" href=\"wasmtime_wasi_http/wasi/http/types/enum.Error.html\" title=\"enum wasmtime_wasi_http::wasi::http::types::Error\">Error</a>''],
      Arr [Str ''impl Lower for <a class=\"enum\" href=\"wasmtime_wasi_http/wasi/http/types/enum.Method.html\" title=\"enum wasmtime_wasi_http::wasi::http::types::Method\">Method</a>''],
      Arr [Str ''impl Lower for <a class=\"enum\" href=\"wasmtime_wasi_http/wasi/http/types/enum.Scheme.html\" title=\"enum wasmtime_wasi_http::wasi::http::types::Scheme\">Scheme</a>''],
      Arr [Str ''impl Lower for <a class=\"struct\" href=\"wasmtime_wasi_http/wasi/clocks/timezone/struct.TimezoneDisplay.html\" title=\"struct wasmtime_wasi_http::wasi::clocks::timezone::TimezoneDisplay\">TimezoneDisplay</a>''],
      Arr [Str ''impl Lower for <a class=\"struct\" href=\"wasmtime_wasi_http/wasi/clocks/wall_clock/struct.Datetime.html\" title=\"struct wasmtime_wasi_http::wasi::clocks::wall_clock::Datetime\">Datetime</a>'']]),
    (''wiggle'', Arr [])]"

text \<open>The object literal of \<^verbatim>\<open>part_000\<close> (lines 1 to 7), key by key.\<close>

definition part_000_implementors :: jsval where
  "part_000_implementors = Obj [
    (''cranelift_codegen'', Arr [
      Arr [Str ''impl&lt;'f&gt; <a class=\"trait\" href=\"https://doc.rust-lang.org/nightly/core/iter/traits/collect/trait.IntoIterator.html\" title=\"trait core::iter::traits::collect::IntoIterator\">IntoIterator</a> for &amp;'f <a class=\"struct\" href=\"cranelift_codegen/ir/layout/struct.Layout.html\" title=\"struct cranelift_codegen::ir::layout::Layout\">Layout</a>'']]),
    (''cranelift_entity'', Arr [
      Arr [Str ''impl&lt;'a, K, V&gt; <a class=\"trait\" href=\"https://doc.rust-lang.org/nightly/core/iter/traits/collect/trait.IntoIterator.html\" title=\"trait core::iter::traits::collect::IntoIterator\">IntoIterator</a> for &amp;'a mut <a class=\"struct\" href=\"cranelift_entity/struct.PrimaryMap.html\" title=\"struct cranelift_entity::PrimaryMap\">PrimaryMap</a>&lt;K, V&gt;<span class=\"where fmt-newline\">where\<newline>    K: <a class=\"trait\" href=\"cranelift_entity/trait.EntityRef.html\" title=\"trait cranelift_entity::EntityRef\">EntityRef</a>,</span>''],
      Arr [Str ''impl&lt;K, V&gt; <a class=\"trait\" href=\"https://doc.rust-lang.org/nightly/core/iter/traits/collect/trait.IntoIterator.html\" title=\"trait core::iter::traits::collect::IntoIterator\">IntoIterator</a> for <a class=\"struct\" href=\"cranelift_entity/struct.PrimaryMap.html\" title=\"struct cranelift_entity::PrimaryMap\">PrimaryMap</a>&lt;K, V&gt;<span class=\"where fmt-newline\">where\<newline>    K: <a class=\"trait\" href=\"cranelift_entity/trait.EntityRef.html\" title=\"trait cranelift_entity::EntityRef\">EntityRef</a>,</span>''],
      Arr [Str ''impl&lt;'a, K, V&gt; <a class=\"trait\" href=\"https://doc.rust-lang.org/nightly/core/iter/traits/collect/trait.IntoIterator.html\" title=\"trait core::iter::traits::collect::IntoIterator\">IntoIterator</a> for &amp;'a mut <a class=\"struct\" href=\"cranelift_entity/struct.BoxedSlice.html\" title=\"struct cranelift_entity::BoxedSlice\">BoxedSlice</a>&lt;K, V&gt;<span class=\"where fmt-newline\">where\<newline>    K: <a class=\"trait\" href=\"cranelift_entity/trait.EntityRef.html\" title=\"trait cranelift_entity::EntityRef\">EntityRef</a>,</span>''],
      Arr [Str ''impl&lt;'a, K, V&gt; <a class=\"trait\" href=\"https://doc.rust-lang.org/nightly/core/iter/traits/collect/trait.IntoIterator.html\" title=\"trait core::iter::traits::collect::IntoIterator\">IntoIterator</a> for &amp;'a <a class=\"struct\" href=\"cranelift_entity/struct.PrimaryMap.html\" title=\"struct cranelift_entity::PrimaryMap\">PrimaryMap</a>&lt;K, V&gt;<span class=\"where fmt-newline\">where\<newline>    K: <a class=\"trait\" href=\"cranelift_entity/trait.EntityRef.html\" title=\"trait cranelift_entity::EntityRef\">EntityRef</a>,</span>''],
      Arr [Str ''impl&lt;'a, K, V&gt; <a class=\"trait\" href=\"https://doc.rust-lang.org/nightly/core/iter/traits/collect/trait.IntoIterator.html\" title=\"trait core::iter::traits::collect::IntoIterator\">IntoIterator</a> for &amp;'a <a class=\"struct\" href=\"cranelift_entity/struct.BoxedSlice.html\" title=\"struct cranelift_entity::BoxedSlice\">BoxedSlice</a>&lt;K, V&gt;<span class=\"where fmt-newline\">where\<newline>    K: <a class=\"trait\" href=\"cranelift_entity/trait.EntityRef.html\" title=\"trait cranelift_entity::EntityRef\">EntityRef</a>,</span>''],
      Arr [Str ''impl&lt;'a, K, V&gt; <a class=\"trait\" href=\"https://doc.rust-lang.org/nightly/core/iter/traits/collect/trait.IntoIterator.html\" title=\"trait core::iter::traits::collect::IntoIterator\">IntoIterator</a> for &amp;'a <a class=\"struct\" href=\"cranelift_entity/struct.SparseMap.html\" title=\"struct cranelift_entity::SparseMap\">SparseMap</a>&lt;K, V&gt;<span class=\"where fmt-newline\">where\<newline>    K: <a class=\"trait\" href=\"cranelift_entity/trait.EntityRef.html\" title=\"trait cranelift_entity::EntityRef\">EntityRef</a>,\<newline>    V: <a class=\"trait\" href=\"cranelift_entity/trait.SparseMapValue.html\" title=\"trait cranelift_entity::SparseMapValue\">SparseMapValue</a>&lt;K&gt;,</span>'']]),
    (''reactor_tests'', Arr [
      Arr [Str ''impl <a class=\"trait\" href=\"https://doc.rust-lang.org/nightly/core/iter/traits/collect/trait.IntoIterator.html\" title=\"trait core::iter::traits::collect::IntoIterator\">IntoIterator</a> for <a class=\"struct\" href=\"reactor_tests/wasi/filesystem/filesystem/struct.OpenFlags.html\" title=\"struct reactor_tests::wasi::filesystem::filesystem::OpenFlags\">OpenFlags</a>''],
      Arr [Str ''impl <a class=\"trait\" href=\"https://doc.rust-lang.org/nightly/core/iter/traits/collect/trait.IntoIterator.html\" title=\"trait core::iter::traits::collect::IntoIterator\">IntoIterator</a> for <a class=\"struct\" href=\"reactor_tests/wasi/filesystem/filesystem/struct.Modes.html\" title=\"struct reactor_tests::wasi::filesystem::filesystem::Modes\">Modes</a>''],
      Arr [Str ''impl <a class=\"trait\" href=\"https://doc.rust-lang.org/nightly/core/iter/traits/collect/trait.IntoIterator.html\" title=\"trait core::iter::traits::collect::IntoIterator\">IntoIterator</a> for <a class=\"struct\" href=\"reactor_tests/wasi/filesystem/filesystem/struct.DescriptorFlags.html\" title=\"struct reactor_tests::wasi::filesystem::filesystem::DescriptorFlags\">DescriptorFlags</a>''],
      Arr [Str ''impl <a class=\"trait\" href=\"https://doc.rust-lang.org/nightly/core/iter/traits/collect/trait.IntoIterator.html\" title=\"trait core::iter::traits::collect::IntoIterator\">IntoIterator</a> for <a class=\"struct\" href=\"reactor_tests/wasi/filesystem/filesystem/struct.PathFlags.html\" title=\"struct reactor_tests::wasi::filesystem::filesystem::PathFlags\">PathFlags</a>'']]),
    (''wasi_snapshot_preview1'', Arr [
      Arr [Str ''impl <a class=\"trait\" href=\"https://doc.rust-lang.org/nightly/core/iter/traits/collect/trait.IntoIterator.html\" title=\"trait core::iter::traits::collect::IntoIterator\">IntoIterator</a> for <a class=\"struct\" href=\"wasi_snapshot_preview1/bindings/wasi/filesystem/filesystem/struct.DescriptorFlags.html\" title=\"struct wasi_snapshot_preview1::bindings::wasi::filesystem::filesystem::DescriptorFlags\">DescriptorFlags</a>''],
      Arr [Str ''impl <a class=\"trait\" href=\"https://doc.rust-lang.org/nightly/core/iter/traits/collect/trait.IntoIterator.html\" title=\"trait core::iter::traits::collect::IntoIterator\">IntoIterator</a> for <a class=\"struct\" href=\"wasi_snapshot_preview1/bindings/wasi/filesystem/filesystem/struct.Modes.html\" title=\"struct wasi_snapshot_preview1::bindings::wasi::filesystem::filesystem::Modes\">Modes</a>''],
      Arr [Str ''impl <a class=\"trait\" href=\"https://doc.rust-lang.org/nightly/core/iter/traits/collect/trait.IntoIterator.html\" title=\"trait core::iter::traits::collect::IntoIterator\">IntoIterator</a> for <a class=\"struct\" href=\"wasi_snapshot_preview1/bindings/wasi/filesystem/filesystem/struct.OpenFlags.html\" title=\"struct wasi_snapshot_preview1::bindings::wasi::filesystem::filesystem::OpenFlags\">OpenFlags</a>''],
      Arr [Str ''impl <a class=\"trait\" href=\"https://doc.rust-lang.org/nightly/core/iter/traits/collect/trait.IntoIterator.html\" title=\"trait core::iter::traits::collect::IntoIterator\">IntoIterator</a> for <a class=\"struct\" href=\"wasi_snapshot_preview1/bindings/wasi/filesystem/filesystem/struct.PathFlags.html\" title=\"struct wasi_snapshot_preview1::bindings::wasi::filesystem::filesystem::PathFlags\">PathFlags</a>'']]),
    (''wasmtime_environ'', Arr [])]"

subsection \<open>The two source files\<close>

datatype source_file = Trait_Lower_js | Part_000

text \<open>\<^verbatim>\<open>var implementors = { ... }\<close>: each file binds its own literal.\<close>

fun implementors_of :: "source_file \<Rightarrow> jsval" where
  "implementors_of Trait_Lower_js = trait_Lower_implementors"
| "implementors_of Part_000 = part_000_implementors"

subsection \<open>The global object and what a script does to it\<close>

text \<open>
  \<^verbatim>\<open>window\<close> is a map from property names to values, all of them plain writable data
  properties; reading a property that is absent gives \<^verbatim>\<open>undefined\<close>, and an assignment
  creates or replaces the property.
\<close>

type_synonym window = "string \<rightharpoonup> jsval"

definition get_prop :: "window \<Rightarrow> string \<Rightarrow> jsval" where
  "get_prop w p = (case w p of None \<Rightarrow> Undefined | Some v \<Rightarrow> v)"

text \<open>
  The operations a script performs on its environment, in order: \<open>Call f args\<close> is
  the call \<^verbatim>\<open>f(args)\<close> on the value \<open>f\<close>, \<open>Put p v\<close> is the assignment
  \<^verbatim>\<open>window.p = v\<close>.
\<close>

datatype effect = Call jsval "jsval list" | Put string jsval

text \<open>
  An uncaught exception: the \<^verbatim>\<open>TypeError\<close> of calling a value that is not a function,
  or whatever value the called function threw.
\<close>

datatype error = TypeError | Thrown jsval

text \<open>
  The function values are installed by the page that loads the scripts, and none of them
  is in the repository. Their behaviour is a parameter: \<open>host n args w\<close> is the window
  the function numbered \<open>n\<close> leaves when called with \<open>args\<close> on window \<open>w\<close>, and the
  value it throws, if it throws.
\<close>

type_synonym host = "nat \<Rightarrow> jsval list \<Rightarrow> window \<Rightarrow> window \<times> jsval option"

record outcome =
  win :: window
  effects :: "effect list"
  thrown :: "error option"

text \<open>IsCallable.\<close>

fun is_function :: "jsval \<Rightarrow> bool" where
  "is_function (Fun n) = True"
| "is_function v = False"

text \<open>
  \<^verbatim>\<open>f(args)\<close>: a function runs as the host says; any other value raises
  \<^verbatim>\<open>TypeError\<close> and leaves the window as it is. The value the function returns is
  dropped by both scripts (the call is an expression statement).
\<close>

definition call_value :: "host \<Rightarrow> jsval \<Rightarrow> jsval list \<Rightarrow> window \<Rightarrow> outcome" where
  "call_value host f args w =
     (case f of
        Fun n \<Rightarrow>
          \<lparr>win = fst (host n args w), effects = [Call f args],
           thrown = map_option Thrown (snd (host n args w))\<rparr>
      | _ \<Rightarrow> \<lparr>win = w, effects = [Call f args], thrown = Some TypeError\<rparr>)"

text \<open>\<^verbatim>\<open>window.p = v\<close>.\<close>

definition assign :: "string \<Rightarrow> jsval \<Rightarrow> window \<Rightarrow> outcome" where
  "assign p v w = \<lparr>win = w(p \<mapsto> v), effects = [Put p v], thrown = None\<rparr>"

text \<open>
  Line 7 of either file, after the literal:
  \<^verbatim>\<open>
  if (window.register_implementors) {window.register_implementors(implementors);}
  else {window.pending_implementors = implementors;}
  \<close>
\<close>

definition eval_file :: "host \<Rightarrow> source_file \<Rightarrow> window \<Rightarrow> outcome" where
  "eval_file host f window =
     (let implementors = implementors_of f in
      if truthy (get_prop window ''register_implementors'')
      then call_value host (get_prop window ''register_implementors'') [implementors] window
      else assign ''pending_implementors'' implementors window)"

text \<open>
  Several scripts loaded one after another: each runs on the window the one before left.
  An uncaught exception ends the script that raised it, not the ones loaded after it.
\<close>

fun eval_files :: "host \<Rightarrow> source_file list \<Rightarrow> window \<Rightarrow> window" where
  "eval_files host [] w = w"
| "eval_files host (f # fs) w = eval_files host fs (win (eval_file host f w))"

subsection \<open>Reading an outcome\<close>

text \<open>The assignments and the calls among the operations, and the values they hand over.\<close>

fun puts :: "effect list \<Rightarrow> (string \<times> jsval) list" where
  "puts [] = []"
| "puts (Put p v # es) = (p, v) # puts es"
| "puts (Call f args # es) = puts es"

fun calls :: "effect list \<Rightarrow> (jsval \<times> jsval list) list" where
  "calls [] = []"
| "calls (Call f args # es) = (f, args) # calls es"
| "calls (Put p v # es) = calls es"

text \<open>
  The calls that ran a function, by its number: the call of any other value raises before
  anything runs.
\<close>

fun invoked :: "effect list \<Rightarrow> (nat \<times> jsval list) list" where
  "invoked [] = []"
| "invoked (Call (Fun n) args # es) = (n, args) # invoked es"
| "invoked (e # es) = invoked es"

fun registered :: "effect list \<Rightarrow> jsval list" where
  "registered [] = []"
| "registered (Call f args # es) = args @ registered es"
| "registered (Put p v # es) = v # registered es"

text \<open>
  \<^verbatim>\<open>o[k]\<close> on an object and \<^verbatim>\<open>a[i]\<close> on an array; \<^verbatim>\<open>undefined\<close> where there is none.
  Of two properties of one name in a literal the later one counts.
\<close>

fun obj_get :: "jsval \<Rightarrow> string \<Rightarrow> jsval" where
  "obj_get (Obj kvs) k = (case map_of (rev kvs) k of None \<Rightarrow> Undefined | Some v \<Rightarrow> v)"
| "obj_get v k = Undefined"

fun arr_get :: "jsval \<Rightarrow> nat \<Rightarrow> jsval" where
  "arr_get (Arr xs) i = (if i < length xs then xs ! i else Undefined)"
| "arr_get v i = Undefined"

fun is_string :: "jsval \<Rightarrow> bool" where
  "is_string (Str s) = True"
| "is_string v = False"

subsection \<open>The shape of a table\<close>

text \<open>
  An implementor descriptor as a string: an HTML fragment that starts with \<^verbatim>\<open>impl\<close>,
  names a trait \<^verbatim>\<open>for\<close> a type, and links with an \<^verbatim>\<open>a\<close> element.
\<close>

definition html_descriptor :: "string \<Rightarrow> bool" where
  "html_descriptor s \<longleftrightarrow>
     prefix ''impl'' s \<and> sublist '' for '' s \<and> sublist ''<a class='' s \<and> sublist ''</a>'' s"

text \<open>
  The shape the literals have: every library maps to an array, and every entry of that
  array is itself an array of one element, the descriptor string.
\<close>

fun table_entry :: "jsval \<Rightarrow> bool" where
  "table_entry (Arr [Str s]) = html_descriptor s"
| "table_entry v = False"

fun table_library :: "string \<times> jsval \<Rightarrow> bool" where
  "table_library (k, Arr es) = list_all table_entry es"
| "table_library (k, v) = False"

fun implementors_table :: "jsval \<Rightarrow> bool" where
  "implementors_table (Obj kvs) = (distinct (map fst kvs) \<and> list_all table_library kvs)"
| "implementors_table v = False"

text \<open>
  The shape as the specification words it: every entry of a library's array is itself
  the descriptor string.
\<close>

fun spec_entry :: "jsval \<Rightarrow> bool" where
  "spec_entry (Str s) = html_descriptor s"
| "spec_entry v = False"

fun spec_library :: "string \<times> jsval \<Rightarrow> bool" where
  "spec_library (k, Arr es) = list_all spec_entry es"
| "spec_library (k, v) = False"

fun spec_table :: "jsval \<Rightarrow> bool" where
  "spec_table (Obj kvs) = (distinct (map fst kvs) \<and> list_all spec_library kvs)"
| "spec_table v = False"

subsection \<open>Three callbacks to run the scripts against\<close>

text \<open>
  One that does nothing, one that throws the string \<^verbatim>\<open>boom\<close>, and one that writes two
  globals: \<^verbatim>\<open>function(imp) {window.count = 1; window.pending_implementors = null;}\<close>.
\<close>

definition idle_host :: host where
  "idle_host n args w = (w, None)"

definition failing_host :: host where
  "failing_host n args w = (w, Some (Str ''boom''))"

definition writing_host :: host where
  "writing_host n args w = (w(''count'' \<mapsto> Num 1, ''pending_implementors'' \<mapsto> Null), None)"

section \<open>What evaluating a file does\<close>

lemma eval_file_unset:
  "\<not> truthy (get_prop w ''register_implementors'') \<Longrightarrow>
   eval_file host f w = assign ''pending_implementors'' (implementors_of f) w"
  by (simp add: eval_file_def)

lemma eval_file_set:
  "truthy (get_prop w ''register_implementors'') \<Longrightarrow>
   eval_file host f w =
     call_value host (get_prop w ''register_implementors'') [implementors_of f] w"
  by (simp add: eval_file_def)

lemma get_prop_upd: "get_prop (w(q \<mapsto> v)) p = (if p = q then v else get_prop w p)"
  by (simp add: get_prop_def)

lemma call_value_function:
  "call_value host (Fun n) args w =
     \<lparr>win = fst (host n args w), effects = [Call (Fun n) args],
      thrown = map_option Thrown (snd (host n args w))\<rparr>"
  by (simp add: call_value_def)

lemma call_value_other:
  "\<not> is_function v \<Longrightarrow>
   call_value host v args w = \<lparr>win = w, effects = [Call v args], thrown = Some TypeError\<rparr>"
  by (cases v) (simp_all add: call_value_def)

lemma effects_call_value: "effects (call_value host v args w) = [Call v args]"
  by (cases v) (simp_all add: call_value_def)

lemma tables_differ: "part_000_implementors \<noteq> trait_Lower_implementors"
  by (simp add: part_000_implementors_def trait_Lower_implementors_def)

lemma trait_Lower_table: "implementors_table trait_Lower_implementors"
  unfolding trait_Lower_implementors_def by code_simp

lemma part_000_table: "implementors_table part_000_implementors"
  unfolding part_000_implementors_def by code_simp

lemma eval_files_unset:
  "\<not> truthy (get_prop w ''register_implementors'') \<Longrightarrow> fs \<noteq> [] \<Longrightarrow>
   eval_files host fs w = w(''pending_implementors'' \<mapsto> implementors_of (last fs))"
proof (induction fs arbitrary: w)
  case Nil
  then show ?case by simp
next
  case (Cons f fs)
  let ?w = "w(''pending_implementors'' \<mapsto> implementors_of f)"
  have step: "win (eval_file host f w) = ?w"
    using Cons.prems(1) by (simp add: eval_file_unset assign_def)
  show ?case
  proof (cases "fs = []")
    case True
    then show ?thesis using step by simp
  next
    case False
    have "\<not> truthy (get_prop ?w ''register_implementors'')"
      using Cons.prems(1) by (simp add: get_prop_upd)
    then have "eval_files host fs ?w = ?w(''pending_implementors'' \<mapsto> implementors_of (last fs))"
      using False by (rule Cons.IH)
    then show ?thesis using step False by simp
  qed
qed

text \<open>
  C1, as the code has it. Evaluating a file binds its literal table and then dispatches
  on \<^verbatim>\<open>window.register_implementors\<close>, three ways. When the value is a function, that
  function is invoked exactly once with the table as the only argument, nothing is
  assigned, and the window and the exception are the ones that call leaves. When the
  value is truthy and not a function, no function is invoked and nothing is assigned: the
  call raises \<^verbatim>\<open>TypeError\<close> and the window is as it was. When the value is falsy, the
  file's only operation is the assignment of the table to
  \<^verbatim>\<open>window.pending_implementors\<close>, and no function is invoked.
\<close>

theorem dispatch_on_callback:
  "(\<forall>n. get_prop w ''register_implementors'' = Fun n \<longrightarrow>
      effects (eval_file host f w) = [Call (Fun n) [implementors_of f]] \<and>
      invoked (effects (eval_file host f w)) = [(n, [implementors_of f])] \<and>
      puts (effects (eval_file host f w)) = [] \<and>
      win (eval_file host f w) = fst (host n [implementors_of f] w) \<and>
      thrown (eval_file host f w) = map_option Thrown (snd (host n [implementors_of f] w))) \<and>
   (truthy (get_prop w ''register_implementors'') \<and>
    \<not> is_function (get_prop w ''register_implementors'') \<longrightarrow>
      invoked (effects (eval_file host f w)) = [] \<and>
      puts (effects (eval_file host f w)) = [] \<and>
      win (eval_file host f w) = w \<and>
      thrown (eval_file host f w) = Some TypeError) \<and>
   (\<not> truthy (get_prop w ''register_implementors'') \<longrightarrow>
      effects (eval_file host f w) = [Put ''pending_implementors'' (implementors_of f)] \<and>
      invoked (effects (eval_file host f w)) = [] \<and>
      win (eval_file host f w) = w(''pending_implementors'' \<mapsto> implementors_of f) \<and>
      thrown (eval_file host f w) = None)"
proof (intro conjI allI impI)
  fix n
  assume "get_prop w ''register_implementors'' = Fun n"
  then have out: "eval_file host f w = call_value host (Fun n) [implementors_of f] w"
    by (simp add: eval_file_def)
  show "effects (eval_file host f w) = [Call (Fun n) [implementors_of f]]"
    by (simp add: out call_value_function)
  show "invoked (effects (eval_file host f w)) = [(n, [implementors_of f])]"
    by (simp add: out call_value_function)
  show "puts (effects (eval_file host f w)) = []"
    by (simp add: out call_value_function)
  show "win (eval_file host f w) = fst (host n [implementors_of f] w)"
    by (simp add: out call_value_function)
  show "thrown (eval_file host f w) = map_option Thrown (snd (host n [implementors_of f] w))"
    by (simp add: out call_value_function)
next
  assume other: "truthy (get_prop w ''register_implementors'') \<and>
    \<not> is_function (get_prop w ''register_implementors'')"
  then have out: "eval_file host f w =
      \<lparr>win = w, effects = [Call (get_prop w ''register_implementors'') [implementors_of f]],
       thrown = Some TypeError\<rparr>"
    by (simp add: eval_file_set call_value_other)
  show "invoked (effects (eval_file host f w)) = []"
    using other by (cases "get_prop w ''register_implementors''") (simp_all add: out)
  show "puts (effects (eval_file host f w)) = []"
    by (simp add: out)
  show "win (eval_file host f w) = w"
    by (simp add: out)
  show "thrown (eval_file host f w) = Some TypeError"
    by (simp add: out)
next
  assume unset: "\<not> truthy (get_prop w ''register_implementors'')"
  show "effects (eval_file host f w) = [Put ''pending_implementors'' (implementors_of f)]"
    using unset by (simp add: eval_file_unset assign_def)
  show "invoked (effects (eval_file host f w)) = []"
    using unset by (simp add: eval_file_unset assign_def)
  show "win (eval_file host f w) = w(''pending_implementors'' \<mapsto> implementors_of f)"
    using unset by (simp add: eval_file_unset assign_def)
  show "thrown (eval_file host f w) = None"
    using unset by (simp add: eval_file_unset assign_def)
qed

text \<open>
  The theorem at three windows: \<^verbatim>\<open>trait.Lower.js\<close> with the idle callback installed,
  \<^verbatim>\<open>trait.Lower.js\<close> with the string \<^verbatim>\<open>yes\<close> in the callback's place, and \<^verbatim>\<open>part_000\<close> on
  the empty window.
\<close>

theorem dispatch_on_callback_witness:
  "invoked (effects (eval_file idle_host Trait_Lower_js [''register_implementors'' \<mapsto> Fun 0])) =
     [(0, [trait_Lower_implementors])] \<and>
   win (eval_file idle_host Trait_Lower_js [''register_implementors'' \<mapsto> Fun 0]) =
     [''register_implementors'' \<mapsto> Fun 0] \<and>
   thrown (eval_file idle_host Trait_Lower_js [''register_implementors'' \<mapsto> Fun 0]) = None \<and>
   invoked (effects (eval_file idle_host Trait_Lower_js
     [''register_implementors'' \<mapsto> Str ''yes''])) = [] \<and>
   win (eval_file idle_host Trait_Lower_js [''register_implementors'' \<mapsto> Str ''yes'']) =
     [''register_implementors'' \<mapsto> Str ''yes''] \<and>
   thrown (eval_file idle_host Trait_Lower_js [''register_implementors'' \<mapsto> Str ''yes'']) =
     Some TypeError \<and>
   effects (eval_file idle_host Part_000 Map.empty) =
     [Put ''pending_implementors'' part_000_implementors] \<and>
   win (eval_file idle_host Part_000 Map.empty) =
     [''pending_implementors'' \<mapsto> part_000_implementors] \<and>
   thrown (eval_file idle_host Part_000 Map.empty) = None"
  using dispatch_on_callback [of "[''register_implementors'' \<mapsto> Fun 0]" idle_host Trait_Lower_js]
    dispatch_on_callback [of "[''register_implementors'' \<mapsto> Str ''yes'']" idle_host Trait_Lower_js]
    dispatch_on_callback [of Map.empty idle_host Part_000]
  by (simp add: get_prop_def idle_host_def)

text \<open>
  C1 as stated fails: with the number \<open>1\<close> in \<^verbatim>\<open>window.register_implementors\<close> the
  value is set, yet \<^verbatim>\<open>trait.Lower.js\<close> invokes no function and stashes nothing. It
  raises \<^verbatim>\<open>TypeError\<close> and leaves the window as it was, and no callback has a say in
  the outcome.
\<close>

theorem no_function_invoked_counterexample:
  "truthy (get_prop [''register_implementors'' \<mapsto> Num 1] ''register_implementors'') \<and>
   invoked (effects (eval_file idle_host Trait_Lower_js [''register_implementors'' \<mapsto> Num 1])) = [] \<and>
   puts (effects (eval_file idle_host Trait_Lower_js [''register_implementors'' \<mapsto> Num 1])) = [] \<and>
   win (eval_file idle_host Trait_Lower_js [''register_implementors'' \<mapsto> Num 1]) =
     [''register_implementors'' \<mapsto> Num 1] \<and>
   thrown (eval_file idle_host Trait_Lower_js [''register_implementors'' \<mapsto> Num 1]) =
     Some TypeError \<and>
   eval_file failing_host Trait_Lower_js [''register_implementors'' \<mapsto> Num 1] =
     eval_file idle_host Trait_Lower_js [''register_implementors'' \<mapsto> Num 1]"
  by (simp add: eval_file_def Let_def get_prop_def call_value_def)

section \<open>Several files, no callback installed\<close>

text \<open>
  C2, as the code has it. \<^verbatim>\<open>window.pending_implementors\<close> is one variable, not a queue:
  while \<^verbatim>\<open>window.register_implementors\<close> is not set, each file assigns its table to
  that variable and replaces what was there, so after any files have been evaluated the
  variable holds the table of the last one and every other property is as before.
\<close>

theorem pending_holds_last_table:
  "\<not> truthy (get_prop w ''register_implementors'') \<Longrightarrow> fs \<noteq> [] \<Longrightarrow>
   eval_files host fs w = w(''pending_implementors'' \<mapsto> implementors_of (last fs)) \<and>
   get_prop (eval_files host fs w) ''pending_implementors'' = implementors_of (last fs)"
  by (simp add: eval_files_unset get_prop_upd)

text \<open>The theorem for both files in source order, on the empty window.\<close>

theorem pending_holds_last_table_witness:
  "\<not> truthy (get_prop Map.empty ''register_implementors'') \<and>
   [Trait_Lower_js, Part_000] \<noteq> [] \<and>
   eval_files idle_host [Trait_Lower_js, Part_000] Map.empty =
     [''pending_implementors'' \<mapsto> part_000_implementors] \<and>
   get_prop (eval_files idle_host [Trait_Lower_js, Part_000] Map.empty) ''pending_implementors'' =
     part_000_implementors"
  using pending_holds_last_table [of Map.empty "[Trait_Lower_js, Part_000]" idle_host]
  by (simp add: get_prop_def)

text \<open>
  C2 as stated fails: evaluating \<^verbatim>\<open>trait.Lower.js\<close> and then \<^verbatim>\<open>part_000\<close> on the empty
  window leaves one property, \<^verbatim>\<open>pending_implementors\<close>, holding the table of
  \<^verbatim>\<open>part_000\<close>; the table of \<^verbatim>\<open>trait.Lower.js\<close> is the value of no property.
\<close>

theorem pending_queue_counterexample:
  "eval_files idle_host [Trait_Lower_js, Part_000] Map.empty =
     [''pending_implementors'' \<mapsto> part_000_implementors] \<and>
   trait_Lower_implementors \<notin> ran (eval_files idle_host [Trait_Lower_js, Part_000] Map.empty)"
proof -
  have unset: "\<not> truthy (get_prop Map.empty ''register_implementors'')"
    by (simp add: get_prop_def)
  have final: "eval_files idle_host [Trait_Lower_js, Part_000] Map.empty =
      [''pending_implementors'' \<mapsto> part_000_implementors]"
    using eval_files_unset [OF unset, of "[Trait_Lower_js, Part_000]" idle_host] by simp
  have "trait_Lower_implementors \<notin> ran [''pending_implementors'' \<mapsto> part_000_implementors]"
    using tables_differ by simp
  with final show ?thesis by simp
qed

text \<open>
  C3, as the code has it. While \<^verbatim>\<open>window.register_implementors\<close> is not set, the two
  orders of evaluating two files end in windows that agree on every property but
  \<^verbatim>\<open>pending_implementors\<close>, which holds the table of the file evaluated last. When
  \<^verbatim>\<open>window.register_implementors\<close> is truthy and not a function, both orders leave the
  window as it was.
\<close>

theorem order_decides_pending_only:
  "(\<not> truthy (get_prop w ''register_implementors'') \<longrightarrow>
      eval_files host [a, b] w = w(''pending_implementors'' \<mapsto> implementors_of b) \<and>
      eval_files host [b, a] w = w(''pending_implementors'' \<mapsto> implementors_of a) \<and>
      (\<forall>p. p \<noteq> ''pending_implementors'' \<longrightarrow>
         eval_files host [a, b] w p = eval_files host [b, a] w p)) \<and>
   (truthy (get_prop w ''register_implementors'') \<and>
    \<not> is_function (get_prop w ''register_implementors'') \<longrightarrow>
      eval_files host [a, b] w = w \<and> eval_files host [b, a] w = w)"
proof (intro conjI impI)
  assume unset: "\<not> truthy (get_prop w ''register_implementors'')"
  show ab: "eval_files host [a, b] w = w(''pending_implementors'' \<mapsto> implementors_of b)"
    using eval_files_unset [OF unset, of "[a, b]" host] by simp
  show ba: "eval_files host [b, a] w = w(''pending_implementors'' \<mapsto> implementors_of a)"
    using eval_files_unset [OF unset, of "[b, a]" host] by simp
  show "\<forall>p. p \<noteq> ''pending_implementors'' \<longrightarrow>
      eval_files host [a, b] w p = eval_files host [b, a] w p"
    unfolding ab ba by simp
next
  assume isset: "truthy (get_prop w ''register_implementors'') \<and>
    \<not> is_function (get_prop w ''register_implementors'')"
  then have same: "win (eval_file host f w) = w" for f
    by (simp add: eval_file_set call_value_other)
  show "eval_files host [a, b] w = w"
    by (simp add: same)
  show "eval_files host [b, a] w = w"
    by (simp add: same)
qed

text \<open>The theorem for the two files on the empty window and on one whose callback is \<open>1\<close>.\<close>

theorem order_decides_pending_only_witness:
  "eval_files idle_host [Trait_Lower_js, Part_000] Map.empty =
     [''pending_implementors'' \<mapsto> part_000_implementors] \<and>
   eval_files idle_host [Part_000, Trait_Lower_js] Map.empty =
     [''pending_implementors'' \<mapsto> trait_Lower_implementors] \<and>
   eval_files idle_host [Trait_Lower_js, Part_000] [''register_implementors'' \<mapsto> Num 1] =
     [''register_implementors'' \<mapsto> Num 1] \<and>
   eval_files idle_host [Part_000, Trait_Lower_js] [''register_implementors'' \<mapsto> Num 1] =
     [''register_implementors'' \<mapsto> Num 1]"
  using order_decides_pending_only [of Map.empty idle_host Trait_Lower_js Part_000]
    order_decides_pending_only
      [of "[''register_implementors'' \<mapsto> Num 1]" idle_host Trait_Lower_js Part_000]
  by (simp add: get_prop_def)

text \<open>
  C3 as stated fails: on the empty window the two orders of evaluating the two files end
  in different windows.
\<close>

theorem evaluation_order_counterexample:
  "eval_files idle_host [Trait_Lower_js, Part_000] Map.empty \<noteq>
   eval_files idle_host [Part_000, Trait_Lower_js] Map.empty"
proof -
  have unset: "\<not> truthy (get_prop Map.empty ''register_implementors'')"
    by (simp add: get_prop_def)
  have ab: "eval_files idle_host [Trait_Lower_js, Part_000] Map.empty ''pending_implementors'' =
      Some part_000_implementors"
    using eval_files_unset [OF unset, of "[Trait_Lower_js, Part_000]" idle_host] by simp
  have ba: "eval_files idle_host [Part_000, Trait_Lower_js] Map.empty ''pending_implementors'' =
      Some trait_Lower_implementors"
    using eval_files_unset [OF unset, of "[Part_000, Trait_Lower_js]" idle_host] by simp
  show ?thesis
  proof
    assume "eval_files idle_host [Trait_Lower_js, Part_000] Map.empty =
      eval_files idle_host [Part_000, Trait_Lower_js] Map.empty"
    with ab ba have "part_000_implementors = trait_Lower_implementors" by simp
    with tables_differ show False by simp
  qed
qed

text \<open>
  C10. While \<^verbatim>\<open>window.register_implementors\<close> is not set, evaluating a file a second
  time changes nothing: the window after two evaluations is the window after one, and
  \<^verbatim>\<open>window.pending_implementors\<close> holds the file's table after either.
\<close>

theorem stash_idempotent:
  "\<not> truthy (get_prop w ''register_implementors'') \<Longrightarrow>
   eval_files host [f, f] w = eval_files host [f] w \<and>
   get_prop (eval_files host [f, f] w) ''pending_implementors'' = implementors_of f \<and>
   get_prop (eval_files host [f] w) ''pending_implementors'' = implementors_of f"
proof -
  assume unset: "\<not> truthy (get_prop w ''register_implementors'')"
  have once: "eval_files host [f] w = w(''pending_implementors'' \<mapsto> implementors_of f)"
    using eval_files_unset [OF unset, of "[f]" host] by simp
  have twice: "eval_files host [f, f] w = w(''pending_implementors'' \<mapsto> implementors_of f)"
    using eval_files_unset [OF unset, of "[f, f]" host] by simp
  show ?thesis
    unfolding once twice by (simp add: get_prop_upd)
qed

text \<open>The theorem for \<^verbatim>\<open>part_000\<close> on a window where the callback is \<^verbatim>\<open>null\<close>.\<close>

theorem stash_idempotent_witness:
  "\<not> truthy (get_prop [''register_implementors'' \<mapsto> Null] ''register_implementors'') \<and>
   eval_files idle_host [Part_000, Part_000] [''register_implementors'' \<mapsto> Null] =
     eval_files idle_host [Part_000] [''register_implementors'' \<mapsto> Null] \<and>
   get_prop (eval_files idle_host [Part_000, Part_000] [''register_implementors'' \<mapsto> Null])
     ''pending_implementors'' = part_000_implementors"
  using stash_idempotent [of "[''register_implementors'' \<mapsto> Null]" idle_host Part_000]
  by (simp add: get_prop_def)

section \<open>One file: what is written, what is called, what is raised\<close>

text \<open>
  C4, as the code has it. A file branches on the environment, and on one value of it
  only: two windows that hold the same \<^verbatim>\<open>register_implementors\<close> see the same
  operations from the file, whatever else they hold and whatever the callback does. The
  operations are one call of that value with the table when it is truthy, and one
  assignment of the table to \<^verbatim>\<open>pending_implementors\<close> when it is not.
\<close>

theorem effects_follow_callback_value:
  "get_prop w1 ''register_implementors'' = get_prop w2 ''register_implementors'' \<Longrightarrow>
   effects (eval_file host1 f w1) = effects (eval_file host2 f w2) \<and>
   effects (eval_file host1 f w1) =
     (if truthy (get_prop w1 ''register_implementors'')
      then [Call (get_prop w1 ''register_implementors'') [implementors_of f]]
      else [Put ''pending_implementors'' (implementors_of f)])"
  by (simp add: eval_file_def Let_def effects_call_value assign_def)

text \<open>
  The theorem for \<^verbatim>\<open>trait.Lower.js\<close> on two windows that differ in another property
  and under two callbacks.
\<close>

theorem effects_follow_callback_value_witness:
  "get_prop [''register_implementors'' \<mapsto> Fun 0] ''register_implementors'' =
     get_prop [''register_implementors'' \<mapsto> Fun 0, ''other'' \<mapsto> Num 7] ''register_implementors'' \<and>
   effects (eval_file idle_host Trait_Lower_js [''register_implementors'' \<mapsto> Fun 0]) =
     effects (eval_file failing_host Trait_Lower_js
       [''register_implementors'' \<mapsto> Fun 0, ''other'' \<mapsto> Num 7]) \<and>
   effects (eval_file idle_host Trait_Lower_js [''register_implementors'' \<mapsto> Fun 0]) =
     [Call (Fun 0) [trait_Lower_implementors]]"
  using effects_follow_callback_value
    [of "[''register_implementors'' \<mapsto> Fun 0]"
        "[''register_implementors'' \<mapsto> Fun 0, ''other'' \<mapsto> Num 7]"
        idle_host Trait_Lower_js failing_host]
  by (auto simp add: get_prop_def)

text \<open>
  C4 as stated fails: \<^verbatim>\<open>trait.Lower.js\<close> assigns on the empty window and calls on a
  window with a callback installed.
\<close>

theorem no_control_flow_counterexample:
  "effects (eval_file idle_host Trait_Lower_js Map.empty) =
     [Put ''pending_implementors'' trait_Lower_implementors] \<and>
   effects (eval_file idle_host Trait_Lower_js [''register_implementors'' \<mapsto> Fun 0]) =
     [Call (Fun 0) [trait_Lower_implementors]] \<and>
   effects (eval_file idle_host Trait_Lower_js Map.empty) \<noteq>
     effects (eval_file idle_host Trait_Lower_js [''register_implementors'' \<mapsto> Fun 0])"
  by (simp add: eval_file_def Let_def get_prop_def effects_call_value assign_def)

text \<open>
  C5, as the code has it. A file has one piece of state to write. When
  \<^verbatim>\<open>window.register_implementors\<close> is falsy, evaluating a file sets
  \<^verbatim>\<open>window.pending_implementors\<close> to the file's table and leaves every other property
  unchanged. When it is truthy the file assigns nothing: the window is the one the call
  leaves, which is the window as it was when the value is not a function or when the
  callback leaves the window alone.
\<close>

theorem only_pending_is_written:
  "(\<not> truthy (get_prop w ''register_implementors'') \<longrightarrow>
      win (eval_file host f w) ''pending_implementors'' = Some (implementors_of f) \<and>
      (\<forall>p. p \<noteq> ''pending_implementors'' \<longrightarrow> win (eval_file host f w) p = w p)) \<and>
   (truthy (get_prop w ''register_implementors'') \<longrightarrow>
      puts (effects (eval_file host f w)) = [] \<and>
      (\<not> is_function (get_prop w ''register_implementors'') \<longrightarrow> win (eval_file host f w) = w) \<and>
      (\<forall>n. get_prop w ''register_implementors'' = Fun n \<longrightarrow>
         win (eval_file host f w) = fst (host n [implementors_of f] w)))"
proof (cases "truthy (get_prop w ''register_implementors'')")
  case True
  then show ?thesis
    by (simp add: eval_file_set effects_call_value call_value_other call_value_function)
next
  case False
  then show ?thesis
    by (simp add: eval_file_unset assign_def)
qed

text \<open>
  The theorem for \<^verbatim>\<open>part_000\<close>: on a window with another property and no callback, and
  on the same window with the idle callback installed.
\<close>

theorem only_pending_is_written_witness:
  "win (eval_file idle_host Part_000 [''other'' \<mapsto> Num 7]) ''pending_implementors'' =
     Some part_000_implementors \<and>
   win (eval_file idle_host Part_000 [''other'' \<mapsto> Num 7]) ''other'' = Some (Num 7) \<and>
   puts (effects (eval_file idle_host Part_000
     [''other'' \<mapsto> Num 7, ''register_implementors'' \<mapsto> Fun 0])) = [] \<and>
   win (eval_file idle_host Part_000 [''other'' \<mapsto> Num 7, ''register_implementors'' \<mapsto> Fun 0]) =
     [''other'' \<mapsto> Num 7, ''register_implementors'' \<mapsto> Fun 0]"
  using only_pending_is_written [of "[''other'' \<mapsto> Num 7]" idle_host Part_000]
    only_pending_is_written
      [of "[''other'' \<mapsto> Num 7, ''register_implementors'' \<mapsto> Fun 0]" idle_host Part_000]
  by (simp add: get_prop_def idle_host_def)

text \<open>
  C5 as stated fails: on the empty window \<^verbatim>\<open>trait.Lower.js\<close> creates the property
  \<^verbatim>\<open>pending_implementors\<close>.
\<close>

theorem no_state_counterexample:
  "Map.empty ''pending_implementors'' = (None :: jsval option) \<and>
   win (eval_file idle_host Trait_Lower_js Map.empty) ''pending_implementors'' =
     Some trait_Lower_implementors \<and>
   win (eval_file idle_host Trait_Lower_js Map.empty) \<noteq> Map.empty"
proof -
  have "win (eval_file idle_host Trait_Lower_js Map.empty) =
      [''pending_implementors'' \<mapsto> trait_Lower_implementors]"
    by (simp add: eval_file_def Let_def get_prop_def assign_def)
  then show ?thesis by simp
qed

text \<open>
  C6, as the code has it. Evaluating a file raises nothing when
  \<^verbatim>\<open>window.register_implementors\<close> is falsy, and nothing when it is a function that
  returns without throwing. When it is truthy and not a function the call raises
  \<^verbatim>\<open>TypeError\<close> and the window is left as it was, and what a callback throws is raised
  by the file.
\<close>

theorem raises_only_from_call:
  "(\<not> truthy (get_prop w ''register_implementors'') \<longrightarrow> thrown (eval_file host f w) = None) \<and>
   (\<forall>n. get_prop w ''register_implementors'' = Fun n \<longrightarrow>
      thrown (eval_file host f w) = map_option Thrown (snd (host n [implementors_of f] w)) \<and>
      (snd (host n [implementors_of f] w) = None \<longrightarrow> thrown (eval_file host f w) = None) \<and>
      (\<forall>v. snd (host n [implementors_of f] w) = Some v \<longrightarrow>
         thrown (eval_file host f w) = Some (Thrown v))) \<and>
   (truthy (get_prop w ''register_implementors'') \<and>
    \<not> is_function (get_prop w ''register_implementors'') \<longrightarrow>
      thrown (eval_file host f w) = Some TypeError \<and>
      win (eval_file host f w) = w)"
proof (cases "truthy (get_prop w ''register_implementors'')")
  case True
  then show ?thesis
    by (simp add: eval_file_set call_value_other call_value_function)
next
  case False
  then have "get_prop w ''register_implementors'' \<noteq> Fun n" for n
    by auto
  with False show ?thesis
    by (simp add: eval_file_unset assign_def)
qed

text \<open>
  The theorem for \<^verbatim>\<open>trait.Lower.js\<close>: no callback, the idle callback, the throwing
  callback, and the string \<^verbatim>\<open>yes\<close> in the callback's place on a window with another
  property.
\<close>

theorem raises_only_from_call_witness:
  "thrown (eval_file idle_host Trait_Lower_js Map.empty) = None \<and>
   thrown (eval_file idle_host Trait_Lower_js [''register_implementors'' \<mapsto> Fun 0]) = None \<and>
   thrown (eval_file failing_host Trait_Lower_js [''register_implementors'' \<mapsto> Fun 0]) =
     Some (Thrown (Str ''boom'')) \<and>
   thrown (eval_file idle_host Trait_Lower_js
     [''other'' \<mapsto> Num 7, ''register_implementors'' \<mapsto> Str ''yes'']) = Some TypeError \<and>
   win (eval_file idle_host Trait_Lower_js
     [''other'' \<mapsto> Num 7, ''register_implementors'' \<mapsto> Str ''yes'']) =
     [''other'' \<mapsto> Num 7, ''register_implementors'' \<mapsto> Str ''yes'']"
  using raises_only_from_call [of Map.empty idle_host Trait_Lower_js]
    raises_only_from_call [of "[''register_implementors'' \<mapsto> Fun 0]" idle_host Trait_Lower_js]
    raises_only_from_call [of "[''register_implementors'' \<mapsto> Fun 0]" failing_host Trait_Lower_js]
    raises_only_from_call
      [of "[''other'' \<mapsto> Num 7, ''register_implementors'' \<mapsto> Str ''yes'']" idle_host Trait_Lower_js]
  by (simp add: get_prop_def idle_host_def failing_host_def)

text \<open>
  C6 as stated fails: with the number \<open>1\<close> in \<^verbatim>\<open>window.register_implementors\<close>, a truthy
  value that is not a function, either file raises \<^verbatim>\<open>TypeError\<close>.
\<close>

theorem not_callable_counterexample:
  "truthy (get_prop [''register_implementors'' \<mapsto> Num 1] ''register_implementors'') \<and>
   thrown (eval_file idle_host Trait_Lower_js [''register_implementors'' \<mapsto> Num 1]) =
     Some TypeError \<and>
   thrown (eval_file idle_host Part_000 [''register_implementors'' \<mapsto> Num 1]) =
     Some TypeError"
  by (simp add: eval_file_def Let_def get_prop_def call_value_def)

text \<open>
  C7, as the code has it. Evaluating one file assigns at most once itself: the
  assignments among its operations are none when \<^verbatim>\<open>window.register_implementors\<close> is
  truthy and the one assignment of the table to \<^verbatim>\<open>window.pending_implementors\<close> when it
  is falsy. When it is falsy every other property is as before. When it is truthy and
  not a function the whole window is as before. When it is a function the window is the
  one that callback leaves, and the callback may write any property.
\<close>

theorem file_writes_at_most_once:
  "length (puts (effects (eval_file host f w))) \<le> 1 \<and>
   set (puts (effects (eval_file host f w))) \<subseteq> {(''pending_implementors'', implementors_of f)} \<and>
   (puts (effects (eval_file host f w)) \<noteq> [] \<longrightarrow>
      \<not> truthy (get_prop w ''register_implementors'')) \<and>
   (\<not> truthy (get_prop w ''register_implementors'') \<longrightarrow>
      puts (effects (eval_file host f w)) = [(''pending_implementors'', implementors_of f)] \<and>
      win (eval_file host f w) ''pending_implementors'' = Some (implementors_of f) \<and>
      (\<forall>p. p \<noteq> ''pending_implementors'' \<longrightarrow> win (eval_file host f w) p = w p)) \<and>
   (truthy (get_prop w ''register_implementors'') \<and>
    \<not> is_function (get_prop w ''register_implementors'') \<longrightarrow>
      win (eval_file host f w) = w) \<and>
   (\<forall>n. get_prop w ''register_implementors'' = Fun n \<longrightarrow>
      win (eval_file host f w) = fst (host n [implementors_of f] w))"
proof (cases "truthy (get_prop w ''register_implementors'')")
  case True
  then show ?thesis
    by (simp add: eval_file_set effects_call_value call_value_other call_value_function)
next
  case False
  then have "get_prop w ''register_implementors'' \<noteq> Fun n" for n
    by auto
  with False show ?thesis
    by (simp add: eval_file_unset assign_def)
qed

text \<open>
  The theorem for \<^verbatim>\<open>trait.Lower.js\<close>: on a window with another property and no
  callback, on the same window with the number \<open>1\<close> for a callback, and with the writing
  callback installed.
\<close>

theorem file_writes_at_most_once_witness:
  "puts (effects (eval_file idle_host Trait_Lower_js [''other'' \<mapsto> Num 7])) =
     [(''pending_implementors'', trait_Lower_implementors)] \<and>
   win (eval_file idle_host Trait_Lower_js [''other'' \<mapsto> Num 7]) ''other'' = Some (Num 7) \<and>
   win (eval_file idle_host Trait_Lower_js
     [''other'' \<mapsto> Num 7, ''register_implementors'' \<mapsto> Num 1]) =
     [''other'' \<mapsto> Num 7, ''register_implementors'' \<mapsto> Num 1] \<and>
   win (eval_file writing_host Trait_Lower_js [''register_implementors'' \<mapsto> Fun 0]) =
     [''register_implementors'' \<mapsto> Fun 0, ''count'' \<mapsto> Num 1, ''pending_implementors'' \<mapsto> Null]"
  using file_writes_at_most_once [of idle_host Trait_Lower_js "[''other'' \<mapsto> Num 7]"]
    file_writes_at_most_once [of idle_host Trait_Lower_js
      "[''other'' \<mapsto> Num 7, ''register_implementors'' \<mapsto> Num 1]"]
    file_writes_at_most_once [of writing_host Trait_Lower_js "[''register_implementors'' \<mapsto> Fun 0]"]
  by (simp add: get_prop_def writing_host_def)

text \<open>
  C7 as stated fails: with the writing callback installed, evaluating \<^verbatim>\<open>part_000\<close>
  assigns nothing itself, yet the property \<^verbatim>\<open>count\<close>, absent before, holds \<open>1\<close> after.
\<close>

theorem callback_writes_counterexample:
  "get_prop [''register_implementors'' \<mapsto> Fun 0] ''count'' = Undefined \<and>
   puts (effects (eval_file writing_host Part_000 [''register_implementors'' \<mapsto> Fun 0])) = [] \<and>
   get_prop (win (eval_file writing_host Part_000 [''register_implementors'' \<mapsto> Fun 0])) ''count'' =
     Num 1"
  by (simp add: eval_file_def Let_def get_prop_def call_value_def writing_host_def)

text \<open>
  C9, as the code has it. The branches exclude each other in what the file itself does.
  When \<^verbatim>\<open>window.register_implementors\<close> is truthy the file makes no assignment:
  \<^verbatim>\<open>window.pending_implementors\<close> is unchanged when the value is not a function, and
  holds what the callback leaves there when it is one. When
  \<^verbatim>\<open>window.register_implementors\<close> is falsy the file makes no call and no function is
  invoked.
\<close>

theorem branches_exclusive_in_file:
  "(truthy (get_prop w ''register_implementors'') \<longrightarrow>
      puts (effects (eval_file host f w)) = [] \<and>
      (\<not> is_function (get_prop w ''register_implementors'') \<longrightarrow>
         win (eval_file host f w) ''pending_implementors'' = w ''pending_implementors'') \<and>
      (\<forall>n. get_prop w ''register_implementors'' = Fun n \<longrightarrow>
         win (eval_file host f w) ''pending_implementors'' =
           fst (host n [implementors_of f] w) ''pending_implementors'')) \<and>
   (\<not> truthy (get_prop w ''register_implementors'') \<longrightarrow>
      calls (effects (eval_file host f w)) = [] \<and>
      invoked (effects (eval_file host f w)) = [])"
proof (cases "truthy (get_prop w ''register_implementors'')")
  case True
  then show ?thesis
    by (simp add: eval_file_set effects_call_value call_value_other call_value_function)
next
  case False
  then show ?thesis
    by (simp add: eval_file_unset assign_def)
qed

text \<open>
  The theorem for \<^verbatim>\<open>part_000\<close>: with a table already pending and the number \<open>1\<close> for a
  callback, with the idle callback installed, and on the empty window.
\<close>

theorem branches_exclusive_in_file_witness:
  "puts (effects (eval_file idle_host Part_000
     [''pending_implementors'' \<mapsto> trait_Lower_implementors, ''register_implementors'' \<mapsto> Num 1])) = [] \<and>
   win (eval_file idle_host Part_000
     [''pending_implementors'' \<mapsto> trait_Lower_implementors, ''register_implementors'' \<mapsto> Num 1])
     ''pending_implementors'' = Some trait_Lower_implementors \<and>
   win (eval_file idle_host Part_000
     [''pending_implementors'' \<mapsto> trait_Lower_implementors, ''register_implementors'' \<mapsto> Fun 0])
     ''pending_implementors'' = Some trait_Lower_implementors \<and>
   calls (effects (eval_file idle_host Part_000 Map.empty)) = []"
  using branches_exclusive_in_file
      [of "[''pending_implementors'' \<mapsto> trait_Lower_implementors, ''register_implementors'' \<mapsto> Num 1]"
          idle_host Part_000]
    branches_exclusive_in_file
      [of "[''pending_implementors'' \<mapsto> trait_Lower_implementors, ''register_implementors'' \<mapsto> Fun 0]"
          idle_host Part_000]
    branches_exclusive_in_file [of Map.empty idle_host Part_000]
  by (simp add: get_prop_def idle_host_def)

text \<open>
  C9 as stated fails: with the writing callback installed and a number pending,
  evaluating \<^verbatim>\<open>part_000\<close> takes the truthy branch and \<^verbatim>\<open>window.pending_implementors\<close>,
  \<open>7\<close> before, is \<^verbatim>\<open>null\<close> after.
\<close>

theorem callback_overwrites_pending_counterexample:
  "truthy (get_prop [''pending_implementors'' \<mapsto> Num 7, ''register_implementors'' \<mapsto> Fun 0]
     ''register_implementors'') \<and>
   get_prop [''pending_implementors'' \<mapsto> Num 7, ''register_implementors'' \<mapsto> Fun 0]
     ''pending_implementors'' = Num 7 \<and>
   get_prop (win (eval_file writing_host Part_000
     [''pending_implementors'' \<mapsto> Num 7, ''register_implementors'' \<mapsto> Fun 0]))
     ''pending_implementors'' = Null"
  by (simp add: eval_file_def Let_def get_prop_def call_value_def writing_host_def)

section \<open>The value a file registers\<close>

text \<open>
  C8, as the code has it. The one value a file hands over, to the callback or to
  \<^verbatim>\<open>window.pending_implementors\<close>, is its literal table. The table maps each library
  name (no name twice) to an array, and every entry of that array is an array of one
  element, an HTML descriptor string; the entry is not the string itself.
\<close>

theorem registers_literal_table:
  "registered (effects (eval_file host f w)) = [implementors_of f] \<and>
   implementors_table (implementors_of f)"
proof
  show "registered (effects (eval_file host f w)) = [implementors_of f]"
    by (simp add: eval_file_def Let_def effects_call_value assign_def)
  show "implementors_table (implementors_of f)"
    by (cases f) (simp_all add: trait_Lower_table part_000_table)
qed

text \<open>The theorem for \<^verbatim>\<open>part_000\<close> on the empty window.\<close>

theorem registers_literal_table_witness:
  "registered (effects (eval_file idle_host Part_000 Map.empty)) = [part_000_implementors] \<and>
   implementors_table part_000_implementors"
  using registers_literal_table [of idle_host Part_000 Map.empty]
  by simp

text \<open>
  C8 as stated fails on the shape of an entry: in the table \<^verbatim>\<open>trait.Lower.js\<close> stashes
  on the empty window, the first entry of library \<^verbatim>\<open>component_test_util\<close> is an array
  holding the descriptor string, not a string.
\<close>

theorem entry_is_not_a_string_counterexample:
  "registered (effects (eval_file idle_host Trait_Lower_js Map.empty)) =
     [trait_Lower_implementors] \<and>
   arr_get (obj_get trait_Lower_implementors ''component_test_util'') 0 =
     Arr [Str ''impl Lower for <a class=\"struct\" href=\"component_test_util/struct.Float32.html\" title=\"struct component_test_util::Float32\">Float32</a>''] \<and>
   \<not> is_string (arr_get (obj_get trait_Lower_implementors ''component_test_util'') 0) \<and>
   \<not> spec_table trait_Lower_implementors"
proof -
  have handed: "registered (effects (eval_file idle_host Trait_Lower_js Map.empty)) =
      [trait_Lower_implementors]"
    by (simp add: eval_file_def Let_def get_prop_def assign_def)
  have first: "arr_get (obj_get trait_Lower_implementors ''component_test_util'') 0 =
      Arr [Str ''impl Lower for <a class=\"struct\" href=\"component_test_util/struct.Float32.html\" title=\"struct component_test_util::Float32\">Float32</a>'']"
    by (simp add: trait_Lower_implementors_def)
  have shape: "\<not> spec_table trait_Lower_implementors"
    by (simp add: trait_Lower_implementors_def)
  show ?thesis
    by (simp add: handed first shape)
qed

end
